theory Spec2Isabelle
  imports Complex_Main "HOL-Library.Sublist"
begin

section \<open>Strings\<close>

text \<open>
  A Python \<open>str\<close> is a sequence of Unicode code points, and \<open>str.strip()\<close> works on
  code points, so a string is modelled as a list of code points (natural numbers) rather
  than as a list of 8-bit characters. \<open>lit\<close> reads an ASCII literal of the source as such
  a list.
\<close>

type_synonym codepoint = nat
type_synonym str = "codepoint list"

definition lit :: "string \<Rightarrow> str" where
  "lit s = map of_char s"

text \<open>
  \<open>str.isspace\<close> for one code point, as \<open>str.strip()\<close> without arguments uses it:
  U+0009..U+000D, U+001C..U+0020, U+0085, U+00A0, U+1680, U+2000..U+200A, U+2028, U+2029,
  U+202F, U+205F and U+3000.
\<close>

definition isspace :: "codepoint \<Rightarrow> bool" where
  "isspace c \<longleftrightarrow>
     (9 \<le> c \<and> c \<le> 13) \<or> (28 \<le> c \<and> c \<le> 32) \<or> c = 133 \<or> c = 160 \<or> c = 5760 \<or>
     (8192 \<le> c \<and> c \<le> 8202) \<or> c = 8232 \<or> c = 8233 \<or> c = 8239 \<or> c = 8287 \<or> c = 12288"

definition lstrip :: "str \<Rightarrow> str" where
  "lstrip s = dropWhile isspace s"

definition rstrip :: "str \<Rightarrow> str" where
  "rstrip s = rev (dropWhile isspace (rev s))"

definition strip :: "str \<Rightarrow> str" where
  "strip s = rstrip (lstrip s)"

text \<open>Python's truthiness of a \<open>str | None\<close> value: \<open>None\<close> and \<open>""\<close> are falsy.\<close>

fun truthy :: "str option \<Rightarrow> bool" where
  "truthy None = False"
| "truthy (Some s) = (s \<noteq> [])"

section \<open>Tone presets\<close>

record TonePreset =
  label :: str
  instruction :: str

definition Polite :: TonePreset where
  "Polite = \<lparr> label = lit ''Polite'',
     instruction = lit ''Rewrite the sentence politely. Keep it short, respectful, and kind. ''
       @ lit ''Do not add extra information.'' \<rparr>"

definition Friendly :: TonePreset where
  "Friendly = \<lparr> label = lit ''Friendly'',
     instruction = lit ''Rewrite the sentence in a warm, friendly tone. Keep it natural and gentle. ''
       @ lit ''Do not add extra information.'' \<rparr>"

definition Professional :: TonePreset where
  "Professional = \<lparr> label = lit ''Professional'',
     instruction = lit ''Rewrite the sentence in a professional tone (clear, calm, formal). ''
       @ lit ''Do not add extra information.'' \<rparr>"

text \<open>The dictionary \<open>TONES\<close>, in insertion order (the order of \<open>list(TONES.keys())\<close>).\<close>

definition TONES :: "(str \<times> TonePreset) list" where
  "TONES = [(lit ''Polite'', Polite), (lit ''Friendly'', Friendly),
            (lit ''Professional'', Professional)]"

section \<open>Prompt builder\<close>

text \<open>
  The f-string of \<open>build_prompt\<close> is a fixed text with two holes. \<open>preamble\<close> is the fixed
  text between the newline that opens the triple-quoted literal and the first hole;
  \<open>sentence_header\<close> is the fixed text between the two holes.
\<close>

definition preamble :: str where
  "preamble =
     lit ''You are a helpful writing assistant. Your goal is to rewrite one sentence with a bright, supportive vibe.\<newline>''
   @ lit ''Rules:\<newline>''
   @ lit ''- Preserve the original meaning.\<newline>''
   @ lit ''- Output ONLY the rewritten sentence. No quotes, no bullet points, no explanations.\<newline>''
   @ lit ''- Keep it concise (1 sentence).\<newline>''
   @ lit ''- Avoid harsh language or negativity; keep it calm and kind.\<newline>''
   @ lit ''\<newline>''
   @ lit ''Task:\<newline>''"

definition sentence_header :: str where
  "sentence_header = lit ''\<newline>\<newline>Sentence:''"

definition build_prompt :: "str \<Rightarrow> TonePreset \<Rightarrow> str" where
  "build_prompt user_text tone =
     strip (lit ''\<newline>'' @ preamble @ instruction tone @ sentence_header
            @ lit ''\<newline>'' @ strip user_text @ lit ''\<newline>'')"

section \<open>Exceptions\<close>

text \<open>
  Exceptions are values. \<open>KeyError\<close> is what a dictionary subscript raises on a missing
  key; \<open>Exception\<close> stands for any exception (a subclass of Python's \<open>Exception\<close>) that an
  external collaborator raises: the secrets store, the client constructor or the
  generation service. Its argument is the diagnostic detail.
\<close>

datatype exn = KeyError str | Exception str

section \<open>Credential resolver\<close>

text \<open>
  The ambient configuration that \<open>get_api_key\<close> reads. \<open>st.secrets\<close> is either not
  configured, and then every access to it raises, or a mapping from names to values;
  \<open>os.getenv\<close> reads a mapping from names to values and never raises.
\<close>

datatype secrets = NotConfigured exn | Secrets "str \<rightharpoonup> str"

type_synonym environ = "str \<rightharpoonup> str"

definition GEMINI_API_KEY :: str where
  "GEMINI_API_KEY = lit ''GEMINI_API_KEY''"

definition GOOGLE_API_KEY :: str where
  "GOOGLE_API_KEY = lit ''GOOGLE_API_KEY''"

text \<open>\<open>st.secrets.get(name, None)\<close>.\<close>

fun secrets_get :: "secrets \<Rightarrow> str \<Rightarrow> exn + str option" where
  "secrets_get (NotConfigured e) name = Inl e"
| "secrets_get (Secrets m) name = Inr (m name)"

text \<open>\<open>a or b\<close> on \<open>str | None\<close> values.\<close>

definition py_or :: "str option \<Rightarrow> str option \<Rightarrow> str option" where
  "py_or a b = (if truthy a then a else b)"

text \<open>
  The \<open>try\<close> block of \<open>get_api_key\<close>, giving the value of the variable \<open>key\<close> when the
  block is left. \<open>key\<close> starts as \<open>None\<close>; an exception leaves the block with the value
  \<open>key\<close> has at that moment, and the handler is \<open>pass\<close>.
\<close>

definition key_from_secrets :: "secrets \<Rightarrow> str option" where
  "key_from_secrets st =
     (case secrets_get st GEMINI_API_KEY of
        Inl e \<Rightarrow> None
      | Inr key \<Rightarrow>
          if \<not> truthy key then
            (case secrets_get st GOOGLE_API_KEY of Inl e \<Rightarrow> key | Inr key' \<Rightarrow> key')
          else key)"

definition get_api_key :: "secrets \<Rightarrow> environ \<Rightarrow> str option" where
  "get_api_key st env =
     (let key = key_from_secrets st
      in if \<not> truthy key then py_or (env GEMINI_API_KEY) (env GOOGLE_API_KEY) else key)"

text \<open>
  The lookup order in the words of the specification: the four sources in priority order,
  a secrets store that cannot be read counting as absent, and the first non-empty value
  among them.
\<close>

definition spec_secret :: "secrets \<Rightarrow> str \<Rightarrow> str option" where
  "spec_secret st name = (case st of NotConfigured e \<Rightarrow> None | Secrets m \<Rightarrow> m name)"

definition spec_sources :: "secrets \<Rightarrow> environ \<Rightarrow> str option list" where
  "spec_sources st env =
     [spec_secret st GEMINI_API_KEY, spec_secret st GOOGLE_API_KEY,
      env GEMINI_API_KEY, env GOOGLE_API_KEY]"

fun spec_first_non_empty :: "str option list \<Rightarrow> str option" where
  "spec_first_non_empty [] = None"
| "spec_first_non_empty (v # vs) = (if truthy v then v else spec_first_non_empty vs)"

section \<open>Rewrite client\<close>

text \<open>
  The request that \<open>generate_content\<close> receives, field by field. Floats are passed through
  unchanged and never computed with, so they are modelled as real numbers.
\<close>

record Part =
  part_text :: str

record Content =
  role :: str
  parts :: "Part list"

record GenerateContentConfig =
  temperature :: real
  top_p :: real
  max_output_tokens :: int

record request =
  model :: str
  contents :: "Content list"
  config :: GenerateContentConfig

record response =
  response_text :: "str option"

text \<open>
  A client is the generation service as seen through \<open>client.models.generate_content\<close>:
  it answers a request with a response or raises.
\<close>

type_synonym client = "request \<Rightarrow> exn + response"

text \<open>\<open>t or ""\<close> on a \<open>str | None\<close> value.\<close>

fun or_empty :: "str option \<Rightarrow> str" where
  "or_empty None = []"
| "or_empty (Some s) = (if s \<noteq> [] then s else [])"

text \<open>The keyword arguments of the call to \<open>client.models.generate_content\<close>.\<close>

definition generate_content_args :: "str \<Rightarrow> str \<Rightarrow> real \<Rightarrow> request" where
  "generate_content_args model_id prompt temp =
     \<lparr> model = model_id,
       contents = [\<lparr> role = lit ''user'', parts = [\<lparr> part_text = prompt \<rparr>] \<rparr>],
       config = \<lparr> temperature = temp, top_p = 0.95, max_output_tokens = 120 \<rparr> \<rparr>"

text \<open>
  \<open>call_gemini_rewrite\<close> returns the requests it sent to the service together with its
  result, so that what is sent can be stated. An exception of the service is not handled
  here and leaves the function.
\<close>

definition call_gemini_rewrite ::
  "client \<Rightarrow> str \<Rightarrow> str \<Rightarrow> real \<Rightarrow> request list \<times> (exn + str)" where
  "call_gemini_rewrite cl model_id prompt temp =
     (let req = generate_content_args model_id prompt temp
      in ([req],
          case cl req of
            Inl e \<Rightarrow> Inl e
          | Inr resp \<Rightarrow> Inr (strip (or_empty (response_text resp)))))"

section \<open>Submit flow\<close>

text \<open>
  What one run of \<open>main\<close> does from the button handling on (the page header, the style
  sheet and the widgets before it only render). The user interface is an external
  collaborator; the run's calls to it are recorded as events, in order.
\<close>

datatype ui_event =
    Warning str          \<comment> \<open>\<open>st.warning\<close>\<close>
  | Error str            \<comment> \<open>\<open>st.error\<close>\<close>
  | ShowException exn    \<comment> \<open>\<open>st.exception\<close>\<close>
  | ShowOutput str       \<comment> \<open>the result card and the download button\<close>

record outcome =
  ui :: "ui_event list"              \<comment> \<open>messages shown, in order\<close>
  session_output :: "str option"     \<comment> \<open>\<open>st.session_state["output"]\<close> after the run\<close>
  client_keys :: "str list"          \<comment> \<open>the keys \<open>get_client\<close> was called with\<close>
  requests :: "request list"         \<comment> \<open>the requests sent to the service\<close>
  rerun :: bool                      \<comment> \<open>the run ended in \<open>st.rerun()\<close>\<close>

fun is_warning :: "ui_event \<Rightarrow> bool" where
  "is_warning (Warning m) = True"
| "is_warning e = False"

definition msg_blank :: str where
  "msg_blank = lit ''Please type a sentence first '' @ [127800]"

definition msg_missing_key :: str where
  "msg_missing_key =
     lit ''Missing API key. Add `GEMINI_API_KEY` in Streamlit Secrets (or as an environment variable).''"

definition msg_no_response :: str where
  "msg_no_response = lit ''I didn'' @ [8217] @ lit ''t get a response. Please try again.''"

definition msg_went_wrong :: str where
  "msg_went_wrong = lit ''Something went wrong while calling Gemini.''"

text \<open>The end of \<open>main\<close>: the stored output, if any, is displayed.\<close>

definition display :: "outcome \<Rightarrow> outcome" where
  "display r =
     (case session_output r of
        None \<Rightarrow> r
      | Some out \<Rightarrow> r\<lparr> ui := ui r @ [ShowOutput out] \<rparr>)"

text \<open>
  \<open>main\<close> with the values of its widgets (\<open>tone_key\<close>, \<open>model_id\<close>, \<open>temp\<close>,
  \<open>user_text\<close>, the two buttons), the ambient configuration, the client constructor
  behind \<open>get_client\<close> and the stored output before the run. \<open>TONES[tone_key]\<close> is outside
  the \<open>try\<close> block, so its \<open>KeyError\<close> leaves \<open>main\<close>; every exception inside the block is
  handled there.
\<close>

definition main ::
  "str \<Rightarrow> str \<Rightarrow> real \<Rightarrow> str \<Rightarrow> bool \<Rightarrow> bool \<Rightarrow> secrets \<Rightarrow> environ \<Rightarrow>
   (str \<Rightarrow> exn + client) \<Rightarrow> str option \<Rightarrow> exn + outcome" where
  "main tone_key model_id temp user_text generate clear st env get_client stored =
     (let idle = \<lparr> ui = [], session_output = stored, client_keys = [], requests = [],
                   rerun = False \<rparr>
      in if clear then Inr (idle\<lparr> session_output := None, rerun := True \<rparr>)
         else if generate then
           if strip user_text = [] then Inr (idle\<lparr> ui := [Warning msg_blank] \<rparr>)
           else
             (case get_api_key st env of
                None \<Rightarrow> Inr (idle\<lparr> ui := [Error msg_missing_key] \<rparr>)
              | Some api_key \<Rightarrow>
                  if api_key = [] then Inr (idle\<lparr> ui := [Error msg_missing_key] \<rparr>)
                  else
                    (case map_of TONES tone_key of
                       None \<Rightarrow> Inl (KeyError tone_key)
                     | Some tone \<Rightarrow>
                         let prompt = build_prompt user_text tone;
                             tried = idle\<lparr> client_keys := [api_key] \<rparr>
                         in (case get_client api_key of
                               Inl e \<Rightarrow>
                                 Inr (display (tried\<lparr> ui := [Error msg_went_wrong, ShowException e] \<rparr>))
                             | Inr cl \<Rightarrow>
                                 (case call_gemini_rewrite cl model_id prompt temp of
                                    (sent, Inl e) \<Rightarrow>
                                      Inr (display (tried\<lparr> ui := [Error msg_went_wrong, ShowException e],
                                                           requests := sent \<rparr>))
                                  | (sent, Inr out) \<Rightarrow>
                                      if out = [] then
                                        Inr (tried\<lparr> ui := [Error msg_no_response], requests := sent \<rparr>)
                                      else
                                        Inr (display (tried\<lparr> session_output := Some out,
                                                             requests := sent \<rparr>))))))
         else Inr (display idle))"

section \<open>Properties of \<open>strip\<close>\<close>

lemma isspace_nl: "isspace 10" by (simp add: isspace_def)

lemma lit_nl: "lit ''\<newline>'' = [10]" by (simp add: lit_def)

lemma strip_ends: "strip s = [] \<or> (\<not> isspace (hd (strip s)) \<and> \<not> isspace (last (strip s)))"
proof (cases "strip s = []")
  case True then show ?thesis by simp
next
  case False
  let ?l = "dropWhile isspace s"
  let ?r = "dropWhile isspace (rev ?l)"
  have s: "strip s = rev ?r" by (simp add: strip_def rstrip_def lstrip_def)
  from False s have r: "?r \<noteq> []" by simp
  then have "\<not> isspace (hd ?r)" by (rule hd_dropWhile)
  then have lastok: "\<not> isspace (last (strip s))" using r s by (simp add: last_rev)
  from r have l: "?l \<noteq> []" by (metis dropWhile.simps(1) rev.simps(1))
  have "suffix ?r (rev ?l)" by (rule suffix_dropWhile)
  then obtain p where p: "rev ?l = p @ ?r" by (auto simp: suffix_def)
  then have "last (rev ?l) = last ?r" using r by (metis last_appendR)
  then have "hd ?l = last ?r" using l by (simp add: last_rev)
  moreover have "\<not> isspace (hd ?l)" using l by (rule hd_dropWhile)
  ultimately have "\<not> isspace (hd (strip s))" using s r by (simp add: hd_rev)
  with lastok show ?thesis by simp
qed

lemma strip_surround:
  assumes a: "\<forall>c\<in>set a. isspace c" and b: "\<forall>c\<in>set b. isspace c"
    and m: "m \<noteq> []" and h: "\<not> isspace (hd m)" and l: "\<not> isspace (last m)"
  shows "strip (a @ m @ b) = m"
proof -
  have "dropWhile isspace (a @ m @ b) = dropWhile isspace (m @ b)"
    using a by simp
  also have "\<dots> = m @ b" using m h by (cases m) simp_all
  finally have 1: "lstrip (a @ m @ b) = m @ b" by (simp add: lstrip_def)
  have "dropWhile isspace (rev (m @ b)) = dropWhile isspace (rev b @ rev m)" by simp
  also have "\<dots> = dropWhile isspace (rev m)"
    by (rule dropWhile_append2) (use b in auto)
  also have "\<dots> = rev m" using m l by (cases m rule: rev_cases) simp_all
  finally have "rstrip (m @ b) = m" by (simp add: rstrip_def)
  with 1 show ?thesis by (simp add: strip_def)
qed

lemma strip_fixed:
  assumes "s = [] \<or> (\<not> isspace (hd s) \<and> \<not> isspace (last s))"
  shows "strip s = s"
proof (cases "s = []")
  case True
  then show ?thesis by (simp add: strip_def lstrip_def rstrip_def)
next
  case False
  with assms show ?thesis using strip_surround [of "[]" "[]" s] by simp
qed

lemma strip_idem: "strip (strip s) = strip s"
  using strip_ends [of s] by (intro strip_fixed) simp

lemma preamble_hd: "preamble \<noteq> [] \<and> hd preamble = 89"
  by (simp add: preamble_def lit_def)

lemma sentence_header_last: "sentence_header \<noteq> [] \<and> last sentence_header = 58"
  by (simp add: sentence_header_def lit_def)

lemma build_prompt_nonblank:
  assumes "strip user_text \<noteq> []"
  shows "build_prompt user_text tone =
           preamble @ instruction tone @ sentence_header @ lit ''\<newline>'' @ strip user_text"
proof -
  let ?m = "preamble @ instruction tone @ sentence_header @ [10] @ strip user_text"
  note r = preamble_hd
  have m: "?m \<noteq> []" using assms by simp
  have h: "\<not> isspace (hd ?m)" using r by (simp add: isspace_def)
  have "last ?m = last (strip user_text)" using assms by simp
  then have l: "\<not> isspace (last ?m)" using strip_ends [of user_text] assms by simp
  have "strip ([10] @ ?m @ [10]) = ?m"
    by (rule strip_surround [OF _ _ m h l]) (simp_all add: isspace_nl)
  then show ?thesis by (simp add: build_prompt_def lit_nl)
qed

lemma build_prompt_blank:
  assumes "strip user_text = []"
  shows "build_prompt user_text tone = preamble @ instruction tone @ sentence_header"
proof -
  let ?m = "preamble @ instruction tone @ sentence_header"
  note r = preamble_hd
  note q = sentence_header_last
  have m: "?m \<noteq> []" using r by simp
  have h: "\<not> isspace (hd ?m)" using r by (simp add: isspace_def)
  have l: "\<not> isspace (last ?m)" using q by (simp add: isspace_def)
  have "strip ([10] @ ?m @ [10, 10]) = ?m"
    by (rule strip_surround [OF _ _ m h l]) (simp_all add: isspace_nl)
  then show ?thesis using assms by (simp add: build_prompt_def lit_nl)
qed

lemma strip_eq_Nil_iff: "strip s = [] \<longleftrightarrow> (\<forall>c\<in>set s. isspace c)"
proof -
  have "strip s = [] \<longleftrightarrow> (\<forall>x\<in>set (dropWhile isspace s). isspace x)"
    by (simp add: strip_def lstrip_def rstrip_def)
  also have "\<dots> \<longleftrightarrow> dropWhile isspace (dropWhile isspace s) = []"
    by (simp only: dropWhile_eq_Nil_conv)
  also have "\<dots> \<longleftrightarrow> (\<forall>c\<in>set s. isspace c)" by simp
  finally show ?thesis .
qed

lemma strip_hello: "strip (lit ''  Hello there  '') = lit ''Hello there''"
  by (simp add: strip_def lstrip_def rstrip_def lit_def isspace_def)

lemma preamble_starts: "prefix (lit ''You are a helpful writing assistant'') preamble"
  by (simp add: preamble_def lit_def)

lemma strip_send: "strip (lit ''Send me the file by today.'') = lit ''Send me the file by today.''"
  by (simp add: strip_def lstrip_def rstrip_def lit_def isspace_def)

section \<open>The prompt builder's contract\<close>

text \<open>
  Claim C1. For every tone preset of \<open>TONES\<close> and every \<open>user_text\<close>, the prompt that
  \<open>build_prompt\<close> returns contains the preset's instruction as a contiguous substring,
  and contains \<open>user_text\<close> stripped of leading and trailing whitespace as a contiguous
  substring.
\<close>

theorem prompt_contains_instruction_and_sentence:
  "\<forall>tone \<in> snd ` set TONES.
     sublist (instruction tone) (build_prompt user_text tone) \<and>
     sublist (strip user_text) (build_prompt user_text tone)"
proof
  fix tone
  show "sublist (instruction tone) (build_prompt user_text tone) \<and>
        sublist (strip user_text) (build_prompt user_text tone)"
  proof (cases "strip user_text = []")
    case True
    then show ?thesis by (simp add: build_prompt_blank)
  next
    case False
    have "sublist (strip user_text)
            ((preamble @ instruction tone @ sentence_header @ lit ''\<newline>'') @ strip user_text)"
      by (rule sublist_append_leftI)
    with False show ?thesis by (simp add: build_prompt_nonblank)
  qed
qed

theorem prompt_contains_instruction_and_sentence_witness:
  "Polite \<in> snd ` set TONES \<and>
   sublist (instruction Polite) (build_prompt (lit ''  Hello there  '') Polite) \<and>
   sublist (lit ''Hello there'') (build_prompt (lit ''  Hello there  '') Polite)"
proof -
  have m: "Polite \<in> snd ` set TONES" by (simp add: TONES_def)
  from prompt_contains_instruction_and_sentence [of "lit ''  Hello there  ''"] m
  show ?thesis by (auto simp: strip_hello)
qed

text \<open>
  Claim C2. For every tone preset of \<open>TONES\<close> and every \<open>user_text\<close> whose strip is not
  empty, the prompt is the fixed preamble (which starts with "You are a helpful writing
  assistant"), the instruction, the line "Sentence:" and then exactly the stripped
  sentence, which is where the prompt ends; the stripped sentence neither begins nor ends
  with whitespace, so none of the whitespace around \<open>user_text\<close> is embedded. Two
  instances: "  Hello there  " with Polite embeds exactly "Hello there", and
  "Send me the file by today." with Professional gives a prompt that ends with that
  sentence.
\<close>

theorem prompt_begins_with_preamble_ends_with_sentence:
  "(\<forall>tone \<in> snd ` set TONES. \<forall>user_text. strip user_text \<noteq> [] \<longrightarrow>
      build_prompt user_text tone =
        preamble @ instruction tone @ lit ''\<newline>\<newline>Sentence:\<newline>'' @ strip user_text \<and>
      prefix (lit ''You are a helpful writing assistant'') (build_prompt user_text tone) \<and>
      suffix (strip user_text) (build_prompt user_text tone) \<and>
      \<not> isspace (hd (strip user_text)) \<and> \<not> isspace (last (strip user_text))) \<and>
   build_prompt (lit ''  Hello there  '') Polite =
     preamble @ instruction Polite @ lit ''\<newline>\<newline>Sentence:\<newline>Hello there'' \<and>
   suffix (lit ''Send me the file by today.'')
     (build_prompt (lit ''Send me the file by today.'') Professional)"
proof -
  have hdr: "sentence_header @ lit ''\<newline>'' = lit ''\<newline>\<newline>Sentence:\<newline>''"
    by (simp add: sentence_header_def lit_def)
  have eq: "build_prompt user_text tone =
          preamble @ instruction tone @ lit ''\<newline>\<newline>Sentence:\<newline>'' @ strip user_text"
    if "strip user_text \<noteq> []" for user_text tone
    using build_prompt_nonblank [OF that, of tone] hdr by simp
  have pre: "prefix (lit ''You are a helpful writing assistant'') (build_prompt user_text tone)"
    if "strip user_text \<noteq> []" for user_text tone
  proof -
    have "prefix preamble (build_prompt user_text tone)" using eq [OF that] by simp
    with preamble_starts show ?thesis by (rule prefix_order.trans)
  qed
  have suf: "suffix (strip user_text) (build_prompt user_text tone)"
    if "strip user_text \<noteq> []" for user_text tone
    using eq [OF that, of tone] by (simp add: suffix_def)
  have ends: "\<not> isspace (hd (strip user_text)) \<and> \<not> isspace (last (strip user_text))"
    if "strip user_text \<noteq> []" for user_text
    using strip_ends [of user_text] that by simp
  have gen: "\<forall>tone \<in> snd ` set TONES. \<forall>user_text. strip user_text \<noteq> [] \<longrightarrow>
      build_prompt user_text tone =
        preamble @ instruction tone @ lit ''\<newline>\<newline>Sentence:\<newline>'' @ strip user_text \<and>
      prefix (lit ''You are a helpful writing assistant'') (build_prompt user_text tone) \<and>
      suffix (strip user_text) (build_prompt user_text tone) \<and>
      \<not> isspace (hd (strip user_text)) \<and> \<not> isspace (last (strip user_text))"
    using eq pre suf ends by blast
  have ne1: "strip (lit ''  Hello there  '') \<noteq> []" by (simp only: strip_hello) (simp add: lit_def)
  have hello: "build_prompt (lit ''  Hello there  '') Polite =
     preamble @ instruction Polite @ lit ''\<newline>\<newline>Sentence:\<newline>Hello there''"
  proof -
    have "build_prompt (lit ''  Hello there  '') Polite =
        preamble @ instruction Polite @ lit ''\<newline>\<newline>Sentence:\<newline>'' @ lit ''Hello there''"
      using eq [OF ne1, of Polite] by (simp only: strip_hello)
    moreover have "lit ''\<newline>\<newline>Sentence:\<newline>'' @ lit ''Hello there'' =
        lit ''\<newline>\<newline>Sentence:\<newline>Hello there''"
      by (simp add: lit_def)
    ultimately show ?thesis by simp
  qed
  have ne2: "strip (lit ''Send me the file by today.'') \<noteq> []" by (simp only: strip_send) (simp add: lit_def)
  have send: "suffix (lit ''Send me the file by today.'')
     (build_prompt (lit ''Send me the file by today.'') Professional)"
    using suf [OF ne2, of Professional] by (simp add: strip_send)
  from gen hello send show ?thesis by blast
qed

theorem prompt_begins_with_preamble_ends_with_sentence_witness:
  "Friendly \<in> snd ` set TONES \<and> strip (lit ''  Hello there  '') \<noteq> [] \<and>
   build_prompt (lit ''  Hello there  '') Friendly =
     preamble @ instruction Friendly @ lit ''\<newline>\<newline>Sentence:\<newline>'' @ lit ''Hello there'' \<and>
   suffix (lit ''Hello there'') (build_prompt (lit ''  Hello there  '') Friendly)"
proof -
  have m: "Friendly \<in> snd ` set TONES" by (simp add: TONES_def)
  have ne: "strip (lit ''  Hello there  '') \<noteq> []" by (simp only: strip_hello) (simp add: lit_def)
  from prompt_begins_with_preamble_ends_with_sentence m ne
  have "build_prompt (lit ''  Hello there  '') Friendly =
          preamble @ instruction Friendly @ lit ''\<newline>\<newline>Sentence:\<newline>''
            @ strip (lit ''  Hello there  '') \<and>
        suffix (strip (lit ''  Hello there  '')) (build_prompt (lit ''  Hello there  '') Friendly)"
    by blast
  with m ne show ?thesis unfolding strip_hello by blast
qed

text \<open>
  Claim C10. \<open>build_prompt\<close> returns a prompt for every string and every preset; the
  prompt is not empty, is unchanged by \<open>strip\<close>, and neither begins nor ends with
  whitespace. When \<open>user_text\<close> is empty or consists of whitespace only, the prompt is the
  preamble, the instruction and the header of the sentence, and so ends with the line
  "Sentence:".
\<close>

theorem prompt_is_stripped_and_total:
  "strip (build_prompt user_text tone) = build_prompt user_text tone \<and>
   build_prompt user_text tone \<noteq> [] \<and>
   \<not> isspace (hd (build_prompt user_text tone)) \<and>
   \<not> isspace (last (build_prompt user_text tone)) \<and>
   ((\<forall>c\<in>set user_text. isspace c) \<longrightarrow>
      build_prompt user_text tone = preamble @ instruction tone @ lit ''\<newline>\<newline>Sentence:'' \<and>
      suffix (lit ''\<newline>Sentence:'') (build_prompt user_text tone))"
proof -
  have idem: "strip (build_prompt user_text tone) = build_prompt user_text tone"
    unfolding build_prompt_def by (rule strip_idem)
  have ne: "build_prompt user_text tone \<noteq> []"
    using preamble_hd
    by (cases "strip user_text = []") (simp_all add: build_prompt_blank build_prompt_nonblank)
  have ends: "\<not> isspace (hd (build_prompt user_text tone)) \<and>
              \<not> isspace (last (build_prompt user_text tone))"
    using strip_ends [of "lit ''\<newline>'' @ preamble @ instruction tone @ sentence_header
            @ lit ''\<newline>'' @ strip user_text @ lit ''\<newline>''"] ne
    unfolding build_prompt_def by blast
  have blank: "build_prompt user_text tone = preamble @ instruction tone @ lit ''\<newline>\<newline>Sentence:'' \<and>
      suffix (lit ''\<newline>Sentence:'') (build_prompt user_text tone)"
    if "\<forall>c\<in>set user_text. isspace c"
  proof -
    from that have "strip user_text = []" by (simp add: strip_eq_Nil_iff)
    then have e: "build_prompt user_text tone =
        preamble @ instruction tone @ lit ''\<newline>\<newline>Sentence:''"
      by (simp add: build_prompt_blank sentence_header_def)
    have "lit ''\<newline>\<newline>Sentence:'' = [10] @ lit ''\<newline>Sentence:''" by (simp add: lit_def)
    then have "build_prompt user_text tone =
        (preamble @ instruction tone @ [10]) @ lit ''\<newline>Sentence:''"
      using e by simp
    then have "suffix (lit ''\<newline>Sentence:'') (build_prompt user_text tone)"
      unfolding suffix_def by blast
    with e show ?thesis by simp
  qed
  from idem ne ends blank show ?thesis by blast
qed

theorem prompt_is_stripped_and_total_witness:
  "list_all isspace (lit ''   '') \<and>
   build_prompt (lit ''   '') Professional =
     preamble @ instruction Professional @ lit ''\<newline>\<newline>Sentence:'' \<and>
   suffix (lit ''\<newline>Sentence:'') (build_prompt (lit ''   '') Professional)"
proof -
  have h: "\<forall>c\<in>set (lit ''   ''). isspace c" by (simp add: lit_def isspace_def)
  from prompt_is_stripped_and_total [of "lit ''   ''" Professional] h
  show ?thesis unfolding list_all_iff by blast
qed

section \<open>The credential resolver's contract\<close>

lemma key_from_secrets_spec:
  "key_from_secrets st =
     (if truthy (spec_secret st GEMINI_API_KEY) then spec_secret st GEMINI_API_KEY
      else spec_secret st GOOGLE_API_KEY)"
  by (cases st) (simp_all add: key_from_secrets_def spec_secret_def)

lemma get_api_key_chain:
  "get_api_key st env =
     (if truthy (spec_secret st GEMINI_API_KEY) then spec_secret st GEMINI_API_KEY
      else if truthy (spec_secret st GOOGLE_API_KEY) then spec_secret st GOOGLE_API_KEY
      else if truthy (env GEMINI_API_KEY) then env GEMINI_API_KEY
      else env GOOGLE_API_KEY)"
  by (simp add: get_api_key_def key_from_secrets_spec py_or_def Let_def)

text \<open>
  Claim C3. \<open>get_api_key\<close> looks at the secrets store under \<open>GEMINI_API_KEY\<close>, then at the
  secrets store under \<open>GOOGLE_API_KEY\<close>, then at the environment variable
  \<open>GEMINI_API_KEY\<close>, then at the environment variable \<open>GOOGLE_API_KEY\<close>: whenever one of
  the four holds a non-empty value, the result is the first non-empty one in that order.
  In particular, when the first three are absent or empty and the environment variable
  \<open>GOOGLE_API_KEY\<close> is set to a non-empty value, that value is returned.
\<close>

theorem get_api_key_first_non_empty:
  "((\<exists>v \<in> set (spec_sources st env). truthy v) \<longrightarrow>
      get_api_key st env = spec_first_non_empty (spec_sources st env)) \<and>
   (\<not> truthy (spec_secret st GEMINI_API_KEY) \<and> \<not> truthy (spec_secret st GOOGLE_API_KEY) \<and>
    \<not> truthy (env GEMINI_API_KEY) \<and> env GOOGLE_API_KEY = Some v \<and> v \<noteq> [] \<longrightarrow>
      get_api_key st env = Some v)"
proof -
  have first: "get_api_key st env = spec_first_non_empty (spec_sources st env)"
    if "\<exists>v \<in> set (spec_sources st env). truthy v"
    using that by (auto simp: get_api_key_chain spec_sources_def)
  have last: "get_api_key st env = Some v"
    if "\<not> truthy (spec_secret st GEMINI_API_KEY)" "\<not> truthy (spec_secret st GOOGLE_API_KEY)"
       "\<not> truthy (env GEMINI_API_KEY)" "env GOOGLE_API_KEY = Some v"
    using that by (simp add: get_api_key_chain)
  from first last show ?thesis by blast
qed

theorem get_api_key_first_non_empty_witness:
  "truthy ([GOOGLE_API_KEY \<mapsto> lit ''k2''] GOOGLE_API_KEY) \<and>
   get_api_key (NotConfigured (Exception [])) [GOOGLE_API_KEY \<mapsto> lit ''k2''] = Some (lit ''k2'') \<and>
   get_api_key (Secrets Map.empty) [GOOGLE_API_KEY \<mapsto> lit ''k2''] = Some (lit ''k2'') \<and>
   get_api_key (Secrets [GOOGLE_API_KEY \<mapsto> lit ''s2'']) [GOOGLE_API_KEY \<mapsto> lit ''k2'']
     = Some (lit ''s2'')"
proof -
  let ?env = "[GOOGLE_API_KEY \<mapsto> lit ''k2'']"
  have ne: "GEMINI_API_KEY \<noteq> GOOGLE_API_KEY"
    by (simp add: GEMINI_API_KEY_def GOOGLE_API_KEY_def lit_def)
  have k: "lit ''k2'' \<noteq> []" "lit ''s2'' \<noteq> []" by (simp_all add: lit_def)
  have a: "get_api_key (NotConfigured (Exception [])) ?env = Some (lit ''k2'')"
    using get_api_key_first_non_empty [of "NotConfigured (Exception [])" ?env "lit ''k2''"] ne k
    by (simp add: spec_secret_def)
  have b: "get_api_key (Secrets Map.empty) ?env = Some (lit ''k2'')"
    using get_api_key_first_non_empty [of "Secrets Map.empty" ?env "lit ''k2''"] ne k
    by (simp add: spec_secret_def)
  have c: "get_api_key (Secrets [GOOGLE_API_KEY \<mapsto> lit ''s2'']) ?env = Some (lit ''s2'')"
    using get_api_key_first_non_empty [of "Secrets [GOOGLE_API_KEY \<mapsto> lit ''s2'']" ?env] ne k
    by (simp add: spec_secret_def spec_sources_def)
  have t: "truthy (?env GOOGLE_API_KEY)" using k by simp
  from a b c t show ?thesis by simp
qed

text \<open>
  Claim C4. When the secrets store is not configured (every access raises) or holds
  neither name, and neither environment variable is set, \<open>get_api_key\<close> returns \<open>None\<close>.
  The exception of an unconfigured store is absorbed: the result is then what the two
  environment variables give, whatever they hold.
\<close>

theorem get_api_key_unconfigured_is_None:
  "(env GEMINI_API_KEY = None \<and> env GOOGLE_API_KEY = None \<and>
    (st = NotConfigured e \<or> st = Secrets m \<and> m GEMINI_API_KEY = None \<and> m GOOGLE_API_KEY = None)
      \<longrightarrow> get_api_key st env = None) \<and>
   get_api_key (NotConfigured e) env = py_or (env GEMINI_API_KEY) (env GOOGLE_API_KEY)"
  by (auto simp: get_api_key_def key_from_secrets_def py_or_def)

theorem get_api_key_unconfigured_is_None_witness:
  "get_api_key (NotConfigured (Exception (lit ''no secrets file''))) Map.empty = None \<and>
   get_api_key (Secrets Map.empty) Map.empty = None"
proof -
  have a: "get_api_key (NotConfigured (Exception (lit ''no secrets file''))) Map.empty = None"
    using get_api_key_unconfigured_is_None
      [of Map.empty "NotConfigured (Exception (lit ''no secrets file''))"
          "Exception (lit ''no secrets file'')"]
    by simp
  have b: "get_api_key (Secrets Map.empty) Map.empty = None"
    using get_api_key_unconfigured_is_None [of Map.empty "Secrets Map.empty" _ Map.empty]
    by simp
  from a b show ?thesis by simp
qed

section \<open>The rewrite client's contract\<close>

lemma strip_Nil: "strip [] = []"
  by (simp add: strip_def lstrip_def rstrip_def)

text \<open>
  Claim C5. Whatever response the service gives, \<open>call_gemini_rewrite\<close> returns the
  text of the response stripped of surrounding whitespace; when the response has no text
  (\<open>None\<close>) or an empty text, it returns the empty string. The result is a string in
  every such case, and \<open>strip\<close> leaves it unchanged.
\<close>

theorem rewrite_returns_stripped_text:
  "(cl (generate_content_args model_id prompt temp) = Inr resp \<longrightarrow>
      (\<forall>s. response_text resp = Some s \<longrightarrow>
         snd (call_gemini_rewrite cl model_id prompt temp) = Inr (strip s)) \<and>
      (response_text resp = None \<or> response_text resp = Some [] \<longrightarrow>
         snd (call_gemini_rewrite cl model_id prompt temp) = Inr []) \<and>
      (\<exists>out. snd (call_gemini_rewrite cl model_id prompt temp) = Inr out \<and> strip out = out))"
proof
  assume r: "cl (generate_content_args model_id prompt temp) = Inr resp"
  then have res: "snd (call_gemini_rewrite cl model_id prompt temp)
      = Inr (strip (or_empty (response_text resp)))"
    by (simp add: call_gemini_rewrite_def Let_def)
  have some: "snd (call_gemini_rewrite cl model_id prompt temp) = Inr (strip s)"
    if "response_text resp = Some s" for s
    using res that by (cases "s = []") simp_all
  have none: "snd (call_gemini_rewrite cl model_id prompt temp) = Inr []"
    if "response_text resp = None \<or> response_text resp = Some []"
    using res that by (auto simp: strip_Nil)
  have "strip (strip (or_empty (response_text resp))) = strip (or_empty (response_text resp))"
    by (rule strip_idem)
  with res have ex: "\<exists>out. snd (call_gemini_rewrite cl model_id prompt temp) = Inr out \<and> strip out = out"
    by blast
  from some none ex
  show "(\<forall>s. response_text resp = Some s \<longrightarrow>
         snd (call_gemini_rewrite cl model_id prompt temp) = Inr (strip s)) \<and>
      (response_text resp = None \<or> response_text resp = Some [] \<longrightarrow>
         snd (call_gemini_rewrite cl model_id prompt temp) = Inr []) \<and>
      (\<exists>out. snd (call_gemini_rewrite cl model_id prompt temp) = Inr out \<and> strip out = out)"
    by blast
qed

theorem rewrite_returns_stripped_text_witness:
  "snd (call_gemini_rewrite (\<lambda>req. Inr \<lparr> response_text = Some (lit '' Hi there.\<newline>'') \<rparr>)
          (lit ''gemini-2.5-flash'') (lit ''p'') 0.3) = Inr (lit ''Hi there.'') \<and>
   snd (call_gemini_rewrite (\<lambda>req. Inr \<lparr> response_text = None \<rparr>)
          (lit ''gemini-2.5-flash'') (lit ''p'') 0.3) = Inr []"
proof -
  have s: "strip (lit '' Hi there.\<newline>'') = lit ''Hi there.''"
    by (simp add: strip_def lstrip_def rstrip_def lit_def isspace_def)
  have a: "snd (call_gemini_rewrite (\<lambda>req. Inr \<lparr> response_text = Some (lit '' Hi there.\<newline>'') \<rparr>)
          (lit ''gemini-2.5-flash'') (lit ''p'') 0.3) = Inr (lit ''Hi there.'')"
    using rewrite_returns_stripped_text
      [of "\<lambda>req. Inr \<lparr> response_text = Some (lit '' Hi there.\<newline>'') \<rparr>"
          "lit ''gemini-2.5-flash''" "lit ''p''" "0.3"
          "\<lparr> response_text = Some (lit '' Hi there.\<newline>'') \<rparr>"]
    by (simp add: s)
  have b: "snd (call_gemini_rewrite (\<lambda>req. Inr \<lparr> response_text = None \<rparr>)
          (lit ''gemini-2.5-flash'') (lit ''p'') 0.3) = Inr []"
    using rewrite_returns_stripped_text
      [of "\<lambda>req. Inr \<lparr> response_text = None \<rparr>"
          "lit ''gemini-2.5-flash''" "lit ''p''" "0.3" "\<lparr> response_text = None \<rparr>"]
    by simp
  from a b show ?thesis by simp
qed

text \<open>
  Claim C6. Every call of \<open>call_gemini_rewrite\<close> sends exactly one request to the
  service. The request carries the given model identifier, one content of role "user"
  whose only part is the given prompt, the temperature of the caller, \<open>top_p = 0.95\<close> and
  \<open>max_output_tokens = 120\<close>; the result is computed from the service's answer to that
  request.
\<close>

theorem rewrite_request_parameters:
  "fst (call_gemini_rewrite cl model_id prompt temp) =
     [\<lparr> model = model_id,
        contents = [\<lparr> role = lit ''user'', parts = [\<lparr> part_text = prompt \<rparr>] \<rparr>],
        config = \<lparr> temperature = temp, top_p = 95 / 100, max_output_tokens = 120 \<rparr> \<rparr>] \<and>
   snd (call_gemini_rewrite cl model_id prompt temp) =
     (case cl \<lparr> model = model_id,
                 contents = [\<lparr> role = lit ''user'', parts = [\<lparr> part_text = prompt \<rparr>] \<rparr>],
                 config = \<lparr> temperature = temp, top_p = 95 / 100, max_output_tokens = 120 \<rparr> \<rparr>
      of Inl e \<Rightarrow> Inl e | Inr resp \<Rightarrow> Inr (strip (or_empty (response_text resp))))"
  by (simp add: call_gemini_rewrite_def generate_content_args_def Let_def)

section \<open>The submit flow's error handling\<close>

lemma messages_differ: "msg_no_response \<noteq> msg_went_wrong"
  by (simp add: msg_no_response_def msg_went_wrong_def lit_def)

lemma strip_Hi: "strip (lit ''Hi'') = lit ''Hi''"
  by (simp add: strip_def lstrip_def rstrip_def lit_def isspace_def)

lemma map_of_TONES_Polite: "map_of TONES (lit ''Polite'') = Some Polite"
  by (simp add: TONES_def lit_def)

text \<open>
  Claim C7. In a submit with a non-blank sentence, a key and a known tone: when the
  rewrite call returns the empty string, the message "I didn't get a response" is shown
  and the stored output is not changed; when the call raises, or the construction of the
  client raises, the exception is handled in \<open>main\<close>: the message "Something went wrong"
  and the exception are shown, the stored output is not changed, \<open>main\<close> returns normally
  and at most one request has been sent. The two messages differ.
\<close>

theorem submit_empty_result_and_exception:
  assumes "strip user_text \<noteq> []"
    and "get_api_key st env = Some api_key" and "api_key \<noteq> []"
    and "map_of TONES tone_key = Some tone"
  shows
    "(get_client api_key = Inr cl \<and>
      call_gemini_rewrite cl model_id (build_prompt user_text tone) temp = (sent, Inr []) \<longrightarrow>
        main tone_key model_id temp user_text True False st env get_client stored =
          Inr \<lparr> ui = [Error msg_no_response], session_output = stored,
                client_keys = [api_key], requests = sent, rerun = False \<rparr>) \<and>
     (get_client api_key = Inr cl \<and>
      call_gemini_rewrite cl model_id (build_prompt user_text tone) temp = (sent, Inl e) \<longrightarrow>
        main tone_key model_id temp user_text True False st env get_client stored =
          Inr (display \<lparr> ui = [Error msg_went_wrong, ShowException e], session_output = stored,
                client_keys = [api_key], requests = sent, rerun = False \<rparr>) \<and>
        length sent = 1) \<and>
     (get_client api_key = Inl e \<longrightarrow>
        main tone_key model_id temp user_text True False st env get_client stored =
          Inr (display \<lparr> ui = [Error msg_went_wrong, ShowException e], session_output = stored,
                client_keys = [api_key], requests = [], rerun = False \<rparr>)) \<and>
     msg_no_response \<noteq> msg_went_wrong"
proof -
  have one: "length sent = 1"
    if "call_gemini_rewrite cl model_id (build_prompt user_text tone) temp = (sent, Inl e)"
    using that by (auto simp: call_gemini_rewrite_def Let_def)
  show ?thesis
    using assms one messages_differ by (simp add: main_def Let_def)
qed

theorem submit_empty_result_and_exception_witness:
  "main (lit ''Polite'') (lit ''gemini-2.5-flash'') 0.3 (lit ''Hi'') True False
        (NotConfigured (Exception [])) [GEMINI_API_KEY \<mapsto> lit ''k'']
        (\<lambda>k. Inr (\<lambda>req. Inr \<lparr> response_text = None \<rparr>)) (Some (lit ''old'')) =
     Inr \<lparr> ui = [Error msg_no_response], session_output = Some (lit ''old''),
           client_keys = [lit ''k''],
           requests = [generate_content_args (lit ''gemini-2.5-flash'')
                         (build_prompt (lit ''Hi'') Polite) 0.3],
           rerun = False \<rparr> \<and>
   main (lit ''Polite'') (lit ''gemini-2.5-flash'') 0.3 (lit ''Hi'') True False
        (NotConfigured (Exception [])) [GEMINI_API_KEY \<mapsto> lit ''k'']
        (\<lambda>k. Inr (\<lambda>req. Inl (Exception (lit ''boom'')))) (Some (lit ''old'')) =
     Inr \<lparr> ui = [Error msg_went_wrong, ShowException (Exception (lit ''boom'')),
                 ShowOutput (lit ''old'')],
           session_output = Some (lit ''old''), client_keys = [lit ''k''],
           requests = [generate_content_args (lit ''gemini-2.5-flash'')
                         (build_prompt (lit ''Hi'') Polite) 0.3],
           rerun = False \<rparr> \<and>
   main (lit ''Polite'') (lit ''gemini-2.5-flash'') 0.3 (lit ''Hi'') True False
        (NotConfigured (Exception [])) [GEMINI_API_KEY \<mapsto> lit ''k'']
        (\<lambda>k. Inl (Exception (lit ''no client''))) None =
     Inr \<lparr> ui = [Error msg_went_wrong, ShowException (Exception (lit ''no client''))],
           session_output = None, client_keys = [lit ''k''], requests = [], rerun = False \<rparr>"
proof -
  let ?st = "NotConfigured (Exception [])"
  let ?env = "[GEMINI_API_KEY \<mapsto> lit ''k'']"
  let ?m = "lit ''gemini-2.5-flash''"
  let ?req = "generate_content_args ?m (build_prompt (lit ''Hi'') Polite) 0.3"
  have h1: "strip (lit ''Hi'') \<noteq> []" by (simp only: strip_Hi) (simp add: lit_def)
  have k: "lit ''k'' \<noteq> []" by (simp add: lit_def)
  have h2: "get_api_key ?st ?env = Some (lit ''k'')"
    using k by (simp add: get_api_key_def key_from_secrets_def py_or_def)
  note h4 = map_of_TONES_Polite
  note inst = submit_empty_result_and_exception [OF h1 h2 k h4]
  have c1: "call_gemini_rewrite (\<lambda>req. Inr \<lparr> response_text = None \<rparr>) ?m
              (build_prompt (lit ''Hi'') Polite) 0.3 = ([?req], Inr [])"
    by (simp add: call_gemini_rewrite_def Let_def strip_Nil)
  have c2: "call_gemini_rewrite (\<lambda>req. Inl (Exception (lit ''boom''))) ?m
              (build_prompt (lit ''Hi'') Polite) 0.3 = ([?req], Inl (Exception (lit ''boom'')))"
    by (simp add: call_gemini_rewrite_def Let_def)
  have a: "main (lit ''Polite'') ?m 0.3 (lit ''Hi'') True False ?st ?env
        (\<lambda>k. Inr (\<lambda>req. Inr \<lparr> response_text = None \<rparr>)) (Some (lit ''old'')) =
     Inr \<lparr> ui = [Error msg_no_response], session_output = Some (lit ''old''),
           client_keys = [lit ''k''], requests = [?req], rerun = False \<rparr>"
    using inst [where get_client = "\<lambda>k. Inr (\<lambda>req. Inr \<lparr> response_text = None \<rparr>)"
                  and cl = "\<lambda>req. Inr \<lparr> response_text = None \<rparr>"
                  and model_id = ?m and temp = "0.3" and sent = "[?req]"] c1
    by simp
  have b: "main (lit ''Polite'') ?m 0.3 (lit ''Hi'') True False ?st ?env
        (\<lambda>k. Inr (\<lambda>req. Inl (Exception (lit ''boom'')))) (Some (lit ''old'')) =
     Inr \<lparr> ui = [Error msg_went_wrong, ShowException (Exception (lit ''boom'')),
                 ShowOutput (lit ''old'')],
           session_output = Some (lit ''old''), client_keys = [lit ''k''],
           requests = [?req], rerun = False \<rparr>"
    using inst [where get_client = "\<lambda>k. Inr (\<lambda>req. Inl (Exception (lit ''boom'')))"
                  and cl = "\<lambda>req. Inl (Exception (lit ''boom''))"
                  and model_id = ?m and temp = "0.3" and sent = "[?req]"
                  and e = "Exception (lit ''boom'')"] c2
    by (simp add: display_def)
  have c: "main (lit ''Polite'') ?m 0.3 (lit ''Hi'') True False ?st ?env
        (\<lambda>k. Inl (Exception (lit ''no client''))) None =
     Inr \<lparr> ui = [Error msg_went_wrong, ShowException (Exception (lit ''no client''))],
           session_output = None, client_keys = [lit ''k''], requests = [], rerun = False \<rparr>"
    using inst [where get_client = "\<lambda>k. Inl (Exception (lit ''no client''))"
                  and model_id = ?m and temp = "0.3"
                  and e = "Exception (lit ''no client'')"]
    by (simp add: display_def)
  from a b c show ?thesis by simp
qed

text \<open>
  Claim C8, as amended. In a submit with an empty or whitespace-only sentence, a warning
  (\<open>st.warning\<close>) is shown; in a submit with a non-blank sentence and an absent or empty
  key, an error message (\<open>st.error\<close>) is shown. In both cases \<open>get_client\<close> is not called,
  no request is sent and the stored output is not changed.
\<close>

theorem submit_blank_or_missing_key:
  "((\<forall>c\<in>set user_text. isspace c) \<longrightarrow>
      main tone_key model_id temp user_text True False st env get_client stored =
        Inr \<lparr> ui = [Warning msg_blank], session_output = stored, client_keys = [],
              requests = [], rerun = False \<rparr>) \<and>
   (\<not> (\<forall>c\<in>set user_text. isspace c) \<and> \<not> truthy (get_api_key st env) \<longrightarrow>
      main tone_key model_id temp user_text True False st env get_client stored =
        Inr \<lparr> ui = [Error msg_missing_key], session_output = stored, client_keys = [],
              requests = [], rerun = False \<rparr>)"
proof -
  have blank: "main tone_key model_id temp user_text True False st env get_client stored =
        Inr \<lparr> ui = [Warning msg_blank], session_output = stored, client_keys = [],
              requests = [], rerun = False \<rparr>"
    if "\<forall>c\<in>set user_text. isspace c"
  proof -
    from that have "strip user_text = []" by (simp add: strip_eq_Nil_iff)
    then show ?thesis by (simp add: main_def Let_def)
  qed
  have missing: "main tone_key model_id temp user_text True False st env get_client stored =
        Inr \<lparr> ui = [Error msg_missing_key], session_output = stored, client_keys = [],
              requests = [], rerun = False \<rparr>"
    if nb: "\<not> (\<forall>c\<in>set user_text. isspace c)" and nk: "\<not> truthy (get_api_key st env)"
  proof -
    from nb have s: "strip user_text \<noteq> []" by (simp add: strip_eq_Nil_iff)
    show ?thesis
    proof (cases "get_api_key st env")
      case None
      with s show ?thesis by (simp add: main_def Let_def)
    next
      case (Some k)
      with nk have "k = []" by simp
      with s Some show ?thesis by (simp add: main_def Let_def)
    qed
  qed
  from blank missing show ?thesis by blast
qed

theorem submit_blank_or_missing_key_witness:
  "list_all isspace (lit ''  '') \<and>
   main (lit ''Polite'') (lit ''gemini-2.5-flash'') 0.3 (lit ''  '') True False
        (NotConfigured (Exception [])) Map.empty (\<lambda>k. Inl (Exception [])) (Some (lit ''old'')) =
     Inr \<lparr> ui = [Warning msg_blank], session_output = Some (lit ''old''), client_keys = [],
           requests = [], rerun = False \<rparr> \<and>
   \<not> list_all isspace (lit ''Hi'') \<and>
   \<not> truthy (get_api_key (Secrets [GEMINI_API_KEY \<mapsto> []]) Map.empty) \<and>
   main (lit ''Polite'') (lit ''gemini-2.5-flash'') 0.3 (lit ''Hi'') True False
        (Secrets [GEMINI_API_KEY \<mapsto> []]) Map.empty (\<lambda>k. Inl (Exception []))
        (Some (lit ''old'')) =
     Inr \<lparr> ui = [Error msg_missing_key], session_output = Some (lit ''old''),
           client_keys = [], requests = [], rerun = False \<rparr>"
proof -
  have b: "\<forall>c\<in>set (lit ''  ''). isspace c" by (simp add: lit_def isspace_def)
  have nb: "\<not> (\<forall>c\<in>set (lit ''Hi''). isspace c)" by (simp add: lit_def isspace_def)
  have ne: "GEMINI_API_KEY \<noteq> GOOGLE_API_KEY"
    by (simp add: GEMINI_API_KEY_def GOOGLE_API_KEY_def lit_def)
  have nk: "\<not> truthy (get_api_key (Secrets [GEMINI_API_KEY \<mapsto> []]) Map.empty)"
    using ne by (simp add: get_api_key_def key_from_secrets_def py_or_def)
  from submit_blank_or_missing_key
         [of "lit ''  ''" "lit ''Polite''" "lit ''gemini-2.5-flash''" "0.3"
             "NotConfigured (Exception [])" Map.empty "\<lambda>k. Inl (Exception [])"
             "Some (lit ''old'')"]
       submit_blank_or_missing_key
         [of "lit ''Hi''" "lit ''Polite''" "lit ''gemini-2.5-flash''" "0.3"
             "Secrets [GEMINI_API_KEY \<mapsto> []]" Map.empty "\<lambda>k. Inl (Exception [])"
             "Some (lit ''old'')"]
       b nb nk
  show ?thesis unfolding list_all_iff by blast
qed

text \<open>
  Claim C8 as stated asks for a warning in both cases. With the sentence "Hi", no secrets
  store and no environment variable, the key is absent and the only message of the run is
  an error message, not a warning.
\<close>

theorem missing_key_shows_error_counterexample:
  "get_api_key (NotConfigured (Exception [])) Map.empty = None \<and>
   main (lit ''Polite'') (lit ''gemini-2.5-flash'') 0.3 (lit ''Hi'') True False
        (NotConfigured (Exception [])) Map.empty (\<lambda>k. Inl (Exception [])) None =
     Inr \<lparr> ui = [Error msg_missing_key], session_output = None, client_keys = [],
           requests = [], rerun = False \<rparr> \<and>
   \<not> list_ex is_warning [Error msg_missing_key]"
proof -
  have k: "get_api_key (NotConfigured (Exception [])) Map.empty = None"
    by (simp add: get_api_key_def key_from_secrets_def py_or_def)
  have h1: "strip (lit ''Hi'') \<noteq> []" by (simp only: strip_Hi) (simp add: lit_def)
  from k h1 show ?thesis by (simp add: main_def Let_def)
qed

end
